theory Spec2Isabelle
  imports Main
begin

section \<open>Operators, schemas and exceptions\<close>

text \<open>
  An operator object of \<open>torch.ops\<close> is a reference: the overload
  \<open>torch.ops.ns.base.overload\<close> or the overload packet \<open>torch.ops.ns.base\<close>.
  Python compares these objects by identity, and there is one object per qualified name,
  so the qualified name is the identity. An overload is never equal to a packet.
\<close>

datatype operator =
    OpOverload string string string
  | OpOverloadPacket string string

text \<open>
  The part of a \<open>torch._C.FunctionSchema\<close> that the pass reads: the argument list with
  each argument's \<open>alias_info\<close> (\<open>None\<close> when the argument is not an alias), the
  qualified \<open>name\<close> and the \<open>overload_name\<close>.
\<close>

record AliasInfo =
  is_write :: bool

record Argument =
  alias_info :: "AliasInfo option"

record FunctionSchema =
  arguments :: "Argument list"
  name :: string
  overload_name :: string

text \<open>
  The exceptions of both modules. \<open>AttributeError a\<close> is raised by reading the attribute
  \<open>a\<close> off an object that has none of this name. \<open>RuntimeError func e\<close> is
  \<open>RuntimeError(f"Mismatch on {func}: {repr(e)}")\<close>: it carries the operator and the
  exception it wraps.
\<close>

datatype exn =
    AssertionError string
  | AttributeError string
  | IndexError
  | UnsupportedFakeTensorException string
  | Exception string
  | RuntimeError operator exn

text \<open>
  Modelled from the spec: the classes of the operator objects and of their schemas
  (\<open>OpOverload\<close> and \<open>OpOverloadPacket\<close> of \<open>torch._ops\<close>, and
  \<open>torch._C.FunctionSchema\<close>) are not among the source files. The spec has the operator
  identifier as an opaque handle that is used as a mapping key, and the schema as a separate
  object that \<open>getSchema\<close> gives for an identifier. So what a Python function is handed is
  an operator or a schema, and only a schema has the attributes \<open>arguments\<close>, \<open>name\<close>
  and \<open>overload_name\<close>: reading one of them off an operator raises \<open>AttributeError\<close>.
\<close>

datatype pyobject = OperatorObject operator | SchemaObject FunctionSchema

definition getattr_arguments :: "pyobject \<Rightarrow> exn + Argument list" where
  "getattr_arguments obj =
     (case obj of
        SchemaObject schema \<Rightarrow> Inr (arguments schema)
      | OperatorObject op \<Rightarrow> Inl (AttributeError ''arguments''))"

definition getattr_name :: "pyobject \<Rightarrow> exn + string" where
  "getattr_name obj =
     (case obj of
        SchemaObject schema \<Rightarrow> Inr (name schema)
      | OperatorObject op \<Rightarrow> Inl (AttributeError ''name''))"

definition getattr_overload_name :: "pyobject \<Rightarrow> exn + string" where
  "getattr_overload_name obj =
     (case obj of
        SchemaObject schema \<Rightarrow> Inr (overload_name schema)
      | OperatorObject op \<Rightarrow> Inl (AttributeError ''overload_name''))"

section \<open>replace\_view\_ops\_with\_view\_copy\_ops\_pass.py\<close>

text \<open>
  The module constants. \<open>_NON_FUNCTIONAL_OPS_TO_FUNCTIONAL_OPS\<close> is a dict with one
  entry; \<open>_BLACK_LISTED_OPS\<close> is a set of three overload packets.
\<close>

definition NON_FUNCTIONAL_OPS_TO_FUNCTIONAL_OPS :: "operator \<rightharpoonup> operator" where
  "NON_FUNCTIONAL_OPS_TO_FUNCTIONAL_OPS =
     [OpOverload ''aten'' ''_unsafe_view'' ''default''
        \<mapsto> OpOverload ''aten'' ''view_copy'' ''default'']"

definition BLACK_LISTED_OPS :: "operator set" where
  "BLACK_LISTED_OPS =
     {OpOverloadPacket ''aten'' ''sym_size'',
      OpOverloadPacket ''aten'' ''sym_stride'',
      OpOverloadPacket ''aten'' ''sym_numel''}"

text \<open>
  \<open>is_view_op(schema)\<close>. The parameter is annotated as a \<open>FunctionSchema\<close>; the function
  reads \<open>schema.arguments\<close> off whatever it is handed.
\<close>

definition is_view_op :: "pyobject \<Rightarrow> exn + bool" where
  "is_view_op schema =
     (case getattr_arguments schema of
        Inl e \<Rightarrow> Inl e
      | Inr args \<Rightarrow>
          if length args = 0 then Inr False
          else Inr (alias_info (args ! 0) \<noteq> None))"

text \<open>\<open>s.startswith(p)\<close>.\<close>

definition startswith :: "string \<Rightarrow> string \<Rightarrow> bool" where
  "startswith s p = (take (length p) s = p)"

text \<open>
  \<open>s.split("::")\<close>: the pieces of \<open>s\<close> between the occurrences of the separator, found
  from the left and not overlapping. The first argument is the piece read so far.
\<close>

fun split_colons :: "string \<Rightarrow> string \<Rightarrow> string list" where
  "split_colons cur [] = [cur]"
| "split_colons cur [c] = [cur @ [c]]"
| "split_colons cur (c # d # cs) =
     (if c = CHR '':'' \<and> d = CHR '':'' then cur # split_colons [] cs
      else split_colons (cur @ [c]) (d # cs))"

text \<open>\<open>xs[1]\<close>, which raises IndexError on a list shorter than two.\<close>

definition index1 :: "'a list \<Rightarrow> exn + 'a" where
  "index1 xs = (if 1 < length xs then Inr (xs ! 1) else Inl IndexError)"

text \<open>
  The registry \<open>torch.ops.aten\<close> as \<open>hasattr\<close> and \<open>getattr\<close> see it:
  \<open>aten n = None\<close> when \<open>hasattr(torch.ops.aten, n)\<close> is false, and otherwise the
  overload packet, itself given by what \<open>hasattr\<close> and \<open>getattr\<close> find on it.
\<close>

type_synonym registry = "string \<Rightarrow> (string \<Rightarrow> operator option) option"

text \<open>
  \<open>get_view_copy_of_view_op(schema)\<close>, with the attribute reads in the order of the source:
  \<open>arguments\<close> in \<open>is_view_op\<close>, then \<open>name\<close>, then \<open>overload_name\<close>.
\<close>

definition get_view_copy_of_view_op :: "registry \<Rightarrow> pyobject \<Rightarrow> exn + operator option" where
  "get_view_copy_of_view_op aten schema =
     (case is_view_op schema of
        Inl e \<Rightarrow> Inl e
      | Inr is_view \<Rightarrow>
          if \<not> is_view then Inr None
          else (case getattr_name schema of
                  Inl e \<Rightarrow> Inl e
                | Inr schema_name \<Rightarrow>
                    if startswith schema_name ''aten::'' then
                      (case index1 (split_colons [] schema_name) of
                         Inl e \<Rightarrow> Inl e
                       | Inr view_op_name \<Rightarrow>
                           (case getattr_overload_name schema of
                              Inl e \<Rightarrow> Inl e
                            | Inr schema_overload_name \<Rightarrow>
                                (let view_op_overload =
                                       (if schema_overload_name \<noteq> '''' then schema_overload_name
                                        else ''default'');
                                     view_copy_op_name = view_op_name @ ''_copy''
                                 in case aten view_copy_op_name of
                                      None \<Rightarrow> Inr None
                                    | Some view_copy_op_overload_packet \<Rightarrow>
                                        (case view_copy_op_overload_packet view_op_overload of
                                           None \<Rightarrow> Inr None
                                         | Some view_copy_op \<Rightarrow> Inr (Some view_copy_op)))))
                    else Inr None))"

text \<open>
  \<open>ReplaceViewOpsWithViewCopyOpsPass.call_operator\<close>. The base class's
  \<open>call_operator\<close> is the parameter \<open>super_call_operator\<close>; it builds a node and updates
  the state of the traversal, so it maps a state to a node and a state.

  The source calls \<open>get_view_copy_of_view_op(op)\<close>: it hands over the operator itself,
  the object it has just looked up in the table of operators and in the set of packets, and
  not the schema of the operator.

  The two module constants are parameters of \<open>call_operator_in\<close>, and
  \<open>call_operator\<close> is the method with the constants of the module.
\<close>

definition call_operator_in ::
  "(operator \<rightharpoonup> operator) \<Rightarrow> operator set \<Rightarrow> registry \<Rightarrow>
   (operator \<Rightarrow> 'a \<Rightarrow> 'k \<Rightarrow> 'm \<Rightarrow> 's \<Rightarrow> 'n \<times> 's) \<Rightarrow>
   operator \<Rightarrow> 'a \<Rightarrow> 'k \<Rightarrow> 'm \<Rightarrow> 's \<Rightarrow> exn + 'n \<times> 's" where
  "call_operator_in table black_list aten super_call_operator op args kwargs meta s =
     (case table op of
        Some functional_op \<Rightarrow> Inr (super_call_operator functional_op args kwargs meta s)
      | None \<Rightarrow>
          if op \<in> black_list then Inr (super_call_operator op args kwargs meta s)
          else (case get_view_copy_of_view_op aten (OperatorObject op) of
                  Inl e \<Rightarrow> Inl e
                | Inr (Some view_copy_op) \<Rightarrow>
                    Inr (super_call_operator view_copy_op args kwargs meta s)
                | Inr None \<Rightarrow> Inr (super_call_operator op args kwargs meta s)))"

definition call_operator ::
  "registry \<Rightarrow> (operator \<Rightarrow> 'a \<Rightarrow> 'k \<Rightarrow> 'm \<Rightarrow> 's \<Rightarrow> 'n \<times> 's) \<Rightarrow>
   operator \<Rightarrow> 'a \<Rightarrow> 'k \<Rightarrow> 'm \<Rightarrow> 's \<Rightarrow> exn + 'n \<times> 's" where
  "call_operator = call_operator_in NON_FUNCTIONAL_OPS_TO_FUNCTIONAL_OPS BLACK_LISTED_OPS"

section \<open>fake\_utils.py\<close>

text \<open>
  What a tensor carries that the cross-check looks at. A leaf of an argument or result
  tree is a real tensor, a fake tensor, \<open>None\<close>, or any other value.
  \<open>FakeTensor\<close> is a subclass of \<open>torch.Tensor\<close>.
\<close>

record tensor =
  shape :: "nat list"
  dtype :: string
  stride :: "nat list"
  device :: string

datatype leaf = Tensor tensor | FakeTensor tensor | PyNone | Opaque string

definition isinstance_Tensor :: "leaf \<Rightarrow> bool" where
  "isinstance_Tensor t = (case t of Tensor x \<Rightarrow> True | FakeTensor x \<Rightarrow> True | _ \<Rightarrow> False)"

definition isinstance_FakeTensor :: "leaf \<Rightarrow> bool" where
  "isinstance_FakeTensor t = (case t of FakeTensor x \<Rightarrow> True | _ \<Rightarrow> False)"

text \<open>
  Trees of \<open>torch.utils._pytree\<close>: a leaf, or a container (tuple, list, dict with its
  keys) of trees. \<open>tree_flatten(t)[0]\<close> lists the leaves from left to right.
\<close>

datatype ctx = TupleCtx | ListCtx | DictCtx "string list"

datatype 'a pytree = Leaf 'a | Node ctx "'a pytree list"

fun tree_flatten :: "'a pytree \<Rightarrow> 'a list" where
  "tree_flatten (Leaf x) = [x]"
| "tree_flatten (Node c ts) = concat (map tree_flatten ts)"

datatype Tag = dynamic_output_shape | inplace_view | data_dependent_output | other_tag string

text \<open>
  The calls that leave the module are recorded in the order they are made:
  \<open>fake_mode.from_tensor(t)\<close>, \<open>func(*fake_args, **fake_kwargs)\<close> under
  \<open>FakeTensorMode\<close>, \<open>func(*args, **kwargs)\<close>, and
  \<open>compare_tensor_meta(r_out, fake_out, check_strides=True)\<close>.
\<close>

datatype event =
    FromTensor leaf
  | FakeCall operator "leaf pytree list" "(string \<times> leaf pytree) list"
  | RealCall operator "leaf pytree list" "(string \<times> leaf pytree) list"
  | CompareTensorMeta leaf leaf

text \<open>
  What the module consumes from outside: the tags of an operator, the lifting of a tensor
  into the fake mode, the execution of an operator under the fake mode and its real
  execution, and the comparison of two tensors' metadata (\<open>None\<close> when it returns,
  \<open>Some e\<close> when it raises \<open>e\<close>). Each of them may raise.
\<close>

record substrate =
  tags :: "operator \<Rightarrow> Tag list"
  from_tensor :: "leaf \<Rightarrow> exn + leaf"
  fake_call :: "operator \<Rightarrow> leaf pytree list \<Rightarrow> (string \<times> leaf pytree) list \<Rightarrow> exn + leaf pytree"
  real_call :: "operator \<Rightarrow> leaf pytree list \<Rightarrow> (string \<times> leaf pytree) list \<Rightarrow> exn + leaf pytree"
  compare_tensor_meta :: "leaf \<Rightarrow> leaf \<Rightarrow> exn option"

record CrossRefFakeMode =
  ignore_op_fn :: "operator \<Rightarrow> bool"

definition CrossRefFakeMode_init :: "(operator \<Rightarrow> bool) option \<Rightarrow> CrossRefFakeMode" where
  "CrossRefFakeMode_init fn_opt =
     \<lparr>ignore_op_fn = (case fn_opt of Some g \<Rightarrow> g | None \<Rightarrow> (\<lambda>fn. False))\<rparr>"

text \<open>\<open>on_tensor(f)\<close>, the function \<open>go\<close>.\<close>

definition on_tensor ::
  "(leaf \<Rightarrow> (exn + leaf) \<times> event list) \<Rightarrow> leaf \<Rightarrow> (exn + leaf) \<times> event list" where
  "on_tensor f t =
     (if isinstance_Tensor t then
        (if isinstance_FakeTensor t
         then (Inl (AssertionError ''FakeTensor -> Real Cross Ref NYI''), [])
         else f t)
      else (Inr t, []))"

definition lift :: "substrate \<Rightarrow> leaf \<Rightarrow> (exn + leaf) \<times> event list" where
  "lift env t = (from_tensor env t, [FromTensor t])"

text \<open>
  \<open>tree_map(fn, tree)\<close> for a function that may raise: the leaves are visited from left
  to right, the first exception ends the walk, and the containers are kept.
\<close>

fun tree_map :: "('a \<Rightarrow> (exn + 'b) \<times> event list) \<Rightarrow> 'a pytree \<Rightarrow> (exn + 'b pytree) \<times> event list"
  and tree_map_list ::
    "('a \<Rightarrow> (exn + 'b) \<times> event list) \<Rightarrow> 'a pytree list \<Rightarrow> (exn + 'b pytree list) \<times> event list" where
  "tree_map fn (Leaf x) =
     (case fn x of (Inl e, ev) \<Rightarrow> (Inl e, ev) | (Inr y, ev) \<Rightarrow> (Inr (Leaf y), ev))"
| "tree_map fn (Node c ts) =
     (case tree_map_list fn ts of
        (Inl e, ev) \<Rightarrow> (Inl e, ev)
      | (Inr ts', ev) \<Rightarrow> (Inr (Node c ts'), ev))"
| "tree_map_list fn [] = (Inr [], [])"
| "tree_map_list fn (t # ts) =
     (case tree_map fn t of
        (Inl e, ev) \<Rightarrow> (Inl e, ev)
      | (Inr t', ev) \<Rightarrow>
          (case tree_map_list fn ts of
             (Inl e, ev') \<Rightarrow> (Inl e, ev @ ev')
           | (Inr ts', ev') \<Rightarrow> (Inr (t' # ts'), ev @ ev')))"

text \<open>
  The body of the \<open>try\<close> block: \<open>tree_map\<close> over the pair \<open>(args, kwargs)\<close> walks the
  positional arguments and then the values of the keyword arguments, and the operator is
  then called on the lifted arguments.
\<close>

definition shadow ::
  "substrate \<Rightarrow> operator \<Rightarrow> leaf pytree list \<Rightarrow> (string \<times> leaf pytree) list \<Rightarrow>
   (exn + leaf pytree) \<times> event list" where
  "shadow env func args kwargs =
     (case tree_map_list (on_tensor (lift env)) args of
        (Inl e, ev) \<Rightarrow> (Inl e, ev)
      | (Inr fake_args, ev) \<Rightarrow>
          (case tree_map_list (on_tensor (lift env)) (map snd kwargs) of
             (Inl e, ev') \<Rightarrow> (Inl e, ev @ ev')
           | (Inr fake_vals, ev') \<Rightarrow>
               (let fake_kwargs = zip (map fst kwargs) fake_vals
                in (fake_call env func fake_args fake_kwargs,
                    ev @ ev' @ [FakeCall func fake_args fake_kwargs]))))"

definition is_unsupported :: "exn \<Rightarrow> bool" where
  "is_unsupported e = (case e of UnsupportedFakeTensorException m \<Rightarrow> True | _ \<Rightarrow> False)"

text \<open>
  The \<open>try\<close> statement: \<open>UnsupportedFakeTensorException\<close> is swallowed and leaves
  \<open>fake_r\<close> at \<open>None\<close>; any other exception leaves the method.
\<close>

definition try_shadow ::
  "substrate \<Rightarrow> operator \<Rightarrow> leaf pytree list \<Rightarrow> (string \<times> leaf pytree) list \<Rightarrow>
   (exn + leaf pytree) \<times> event list" where
  "try_shadow env func args kwargs =
     (case shadow env func args kwargs of
        (Inl e, ev) \<Rightarrow> if is_unsupported e then (Inr (Leaf PyNone), ev) else (Inl e, ev)
      | (Inr fake_r, ev) \<Rightarrow> (Inr fake_r, ev))"

text \<open>The loop over \<open>zip(tree_flatten(r)[0], tree_flatten(fake_r)[0])\<close>.\<close>

fun compare_outputs :: "substrate \<Rightarrow> operator \<Rightarrow> (leaf \<times> leaf) list \<Rightarrow> exn option \<times> event list" where
  "compare_outputs env func [] = (None, [])"
| "compare_outputs env func ((r_out, fake_out) # rest) =
     (let r_ten = isinstance_Tensor r_out
      in if r_ten \<noteq> isinstance_Tensor fake_out then (Some (AssertionError []), [])
         else if r_ten then
           (case compare_tensor_meta env r_out fake_out of
              Some e \<Rightarrow> (Some (RuntimeError func e), [CompareTensorMeta r_out fake_out])
            | None \<Rightarrow>
                (case compare_outputs env func rest of
                   (res, ev) \<Rightarrow> (res, CompareTensorMeta r_out fake_out # ev)))
         else compare_outputs env func rest)"

text \<open>\<open>kwargs or {}\<close>: \<open>None\<close> and the empty dict both give the empty dict.\<close>

definition or_empty :: "(string \<times> leaf pytree) list option \<Rightarrow> (string \<times> leaf pytree) list" where
  "or_empty kwargs_opt = (case kwargs_opt of None \<Rightarrow> [] | Some kw \<Rightarrow> kw)"

text \<open>The condition under which the fake execution is attempted.\<close>

definition shadow_runs :: "CrossRefFakeMode \<Rightarrow> substrate \<Rightarrow> operator \<Rightarrow> bool" where
  "shadow_runs self env func =
     (func \<notin> set [OpOverload ''aten'' ''lift_fresh'' ''default'',
                    OpOverload ''aten'' ''lift_fresh_copy'' ''default'',
                    OpOverload ''aten'' ''set_'' ''source_Storage_storage_offset'']
      \<and> \<not> ignore_op_fn self func
      \<and> dynamic_output_shape \<notin> set (tags env func)
      \<and> inplace_view \<notin> set (tags env func)
      \<and> data_dependent_output \<notin> set (tags env func))"

text \<open>
  \<open>CrossRefFakeMode.__torch_dispatch__\<close>. \<open>fake_r\<close> starts as \<open>None\<close>, and the test
  \<open>fake_r is not None\<close> decides whether the results are compared. The result is the value
  returned or the exception raised, with the calls made.
\<close>

definition torch_dispatch ::
  "CrossRefFakeMode \<Rightarrow> substrate \<Rightarrow> operator \<Rightarrow> 't \<Rightarrow> leaf pytree list \<Rightarrow>
   (string \<times> leaf pytree) list option \<Rightarrow> (exn + leaf pytree) \<times> event list" where
  "torch_dispatch self env func types args kwargs_opt =
     (let kwargs = or_empty kwargs_opt;
          (shadow_outcome, ev) =
            (if shadow_runs self env func then try_shadow env func args kwargs
             else (Inr (Leaf PyNone), []))
      in case shadow_outcome of
           Inl e \<Rightarrow> (Inl e, ev)
         | Inr fake_r \<Rightarrow>
             (case real_call env func args kwargs of
                Inl e \<Rightarrow> (Inl e, ev @ [RealCall func args kwargs])
              | Inr r \<Rightarrow>
                  if fake_r \<noteq> Leaf PyNone then
                    (case compare_outputs env func (zip (tree_flatten r) (tree_flatten fake_r)) of
                       (Some e, ev') \<Rightarrow> (Inl e, ev @ RealCall func args kwargs # ev')
                     | (None, ev') \<Rightarrow> (Inr r, ev @ RealCall func args kwargs # ev'))
                  else (Inr r, ev @ [RealCall func args kwargs])))"

text \<open>The metadata of a tensor leaf.\<close>

definition tensor_meta :: "leaf \<Rightarrow> tensor option" where
  "tensor_meta t = (case t of Tensor x \<Rightarrow> Some x | FakeTensor x \<Rightarrow> Some x | _ \<Rightarrow> None)"

text \<open>
  Modelled from the spec: \<open>torch._prims.utils.compare_tensor_meta\<close> with
  \<open>check_strides=True\<close>, which is not part of the two modules. The spec has it compare
  shape, dtype and the full stride layout of two tensors and fail on any mismatch.
\<close>

definition compare_tensor_meta_spec :: "leaf \<Rightarrow> leaf \<Rightarrow> exn option" where
  "compare_tensor_meta_spec a b =
     (case (tensor_meta a, tensor_meta b) of
        (Some x, Some y) \<Rightarrow>
          if shape x \<noteq> shape y then Some (AssertionError ''Shapes are not equal!'')
          else if dtype x \<noteq> dtype y then Some (AssertionError ''Dtypes are not equal!'')
          else if stride x \<noteq> stride y then Some (Exception ''Stride mismatch!'')
          else None
      | _ \<Rightarrow> Some (AssertionError []))"

text \<open>
  A pair of leaves passes an iteration of the comparison loop when both are tensors or
  neither is and, for tensors, \<open>compare_tensor_meta\<close> returns.
\<close>

definition pair_agrees :: "substrate \<Rightarrow> leaf \<times> leaf \<Rightarrow> bool" where
  "pair_agrees env p =
     (isinstance_Tensor (fst p) = isinstance_Tensor (snd p)
      \<and> (isinstance_Tensor (fst p) \<longrightarrow> compare_tensor_meta env (fst p) (snd p) = None))"

text \<open>The comparisons the loop makes on a list of pairs that it walks to the end.\<close>

definition compared :: "(leaf \<times> leaf) list \<Rightarrow> event list" where
  "compared pairs =
     map (\<lambda>p. CompareTensorMeta (fst p) (snd p)) (filter (\<lambda>p. isinstance_Tensor (fst p)) pairs)"


text \<open>
  The walk of a function that may raise over a list of leaves, from left to right, up to
  the first exception. \<open>tree_map\<close> makes this walk over the flattened tree.
\<close>

fun run_leaves :: "('a \<Rightarrow> (exn + 'b) \<times> event list) \<Rightarrow> 'a list \<Rightarrow> exn option \<times> event list" where
  "run_leaves fn [] = (None, [])"
| "run_leaves fn (x # xs) =
     (case fn x of
        (Inl e, ev) \<Rightarrow> (Some e, ev)
      | (Inr y, ev) \<Rightarrow> (case run_leaves fn xs of (r, ev') \<Rightarrow> (r, ev @ ev')))"

section \<open>Example inputs\<close>

text \<open>
  A small registry, the schemas of some operators (a view schema has an alias on its first
  argument, a plain one has none), an exclusion set that holds a key of the static table,
  and a base-class \<open>call_operator\<close> that returns what it was called with and counts its
  calls in the state.
\<close>

definition example_registry :: registry where
  "example_registry =
     [''transpose_copy'' \<mapsto> [''int'' \<mapsto> OpOverload ''aten'' ''transpose_copy'' ''int''],
      ''_unsafe_view_copy'' \<mapsto>
         [''default'' \<mapsto> OpOverload ''aten'' ''_unsafe_view_copy'' ''default''],
      ''sym_size_copy'' \<mapsto> [''default'' \<mapsto> OpOverload ''aten'' ''sym_size_copy'' ''default'']]"

definition view_schema :: "string \<Rightarrow> string \<Rightarrow> FunctionSchema" where
  "view_schema n ov =
     \<lparr>arguments = [\<lparr>alias_info = Some \<lparr>is_write = False\<rparr>\<rparr>, \<lparr>alias_info = None\<rparr>],
      name = n, overload_name = ov\<rparr>"

definition plain_schema :: "string \<Rightarrow> string \<Rightarrow> FunctionSchema" where
  "plain_schema n ov =
     \<lparr>arguments = [\<lparr>alias_info = None\<rparr>, \<lparr>alias_info = None\<rparr>], name = n, overload_name = ov\<rparr>"

definition example_black_list :: "operator set" where
  "example_black_list = {OpOverload ''aten'' ''_unsafe_view'' ''default''}"

definition counting_delegate ::
  "operator \<Rightarrow> nat \<Rightarrow> nat \<Rightarrow> nat \<Rightarrow> nat \<Rightarrow> (operator \<times> nat \<times> nat \<times> nat) \<times> nat" where
  "counting_delegate op args kwargs m s = ((op, args, kwargs, m), Suc s)"

text \<open>
  Tensors, and a substrate: \<open>nonzero\<close> has the tag \<open>dynamic_output_shape\<close>, a quantized
  tensor cannot be lifted, the fake execution of \<open>t\<close> reports a wrong shape, the fake
  execution of \<open>unbind\<close> returns one leaf more than the real one, and the comparison is the
  one modelled from the spec.
\<close>

definition t23 :: tensor where
  "t23 = \<lparr>shape = [2, 3], dtype = ''float32'', stride = [3, 1], device = ''cpu''\<rparr>"

definition t32 :: tensor where
  "t32 = \<lparr>shape = [3, 2], dtype = ''float32'', stride = [2, 1], device = ''cpu''\<rparr>"

definition tq :: tensor where
  "tq = \<lparr>shape = [2, 3], dtype = ''quint8'', stride = [3, 1], device = ''cpu''\<rparr>"

definition example_substrate :: substrate where
  "example_substrate =
     \<lparr>tags = (\<lambda>f. if f = OpOverload ''aten'' ''nonzero'' ''default''
                   then [dynamic_output_shape] else [other_tag ''core'']),
      from_tensor = (\<lambda>t. case t of
                           Tensor x \<Rightarrow> if dtype x = ''quint8''
                                       then Inl (UnsupportedFakeTensorException ''quantized'')
                                       else Inr (FakeTensor x)
                         | _ \<Rightarrow> Inr t),
      fake_call = (\<lambda>f a k. if f = OpOverload ''aten'' ''t'' ''default''
                            then Inr (Leaf (FakeTensor t32))
                            else if f = OpOverload ''aten'' ''unbind'' ''int''
                            then Inr (Node TupleCtx [Leaf (FakeTensor t23), Leaf (FakeTensor t32)])
                            else Inr (Leaf (FakeTensor t23))),
      real_call = (\<lambda>f a k. Inr (Leaf (Tensor t23))),
      compare_tensor_meta = compare_tensor_meta_spec\<rparr>"

text \<open>
  The same substrate with a real execution that returns the tuple of the positional
  arguments followed by the values of the keyword arguments it was called with.
\<close>

definition echo_substrate :: substrate where
  "echo_substrate =
     example_substrate\<lparr>real_call := (\<lambda>f a k. Inr (Node TupleCtx (a @ map snd k)))\<rparr>"

definition ignore_all :: "operator \<Rightarrow> bool" where
  "ignore_all fn = True"

section \<open>Facts about the pass\<close>

lemma split_colons_nonempty: "split_colons cur s \<noteq> []"
  by (induction cur s rule: split_colons.induct) auto

lemma split_colons_aten:
  "startswith s ''aten::'' \<Longrightarrow> \<exists>rest. split_colons [] s = ''aten'' # split_colons [] rest"
proof -
  assume "startswith s ''aten::''"
  then have "take (length ''aten::'') s = ''aten::''" by (simp only: startswith_def)
  then have "s = ''aten::'' @ drop (length ''aten::'') s"
    using append_take_drop_id [of "length ''aten::''" s] by simp
  then obtain rest where "s = ''aten::'' @ rest" ..
  then show ?thesis by auto
qed

lemma index1_split_colons:
  "startswith s ''aten::'' \<Longrightarrow> \<exists>b. index1 (split_colons [] s) = Inr b"
proof -
  assume "startswith s ''aten::''"
  then obtain rest where r: "split_colons [] s = ''aten'' # split_colons [] rest"
    using split_colons_aten by blast
  have "split_colons [] rest \<noteq> []" by (rule split_colons_nonempty)
  then have "1 < length (split_colons [] s)" using r by (cases "split_colons [] rest") auto
  then show ?thesis by (simp add: index1_def)
qed

text \<open>Handed a schema, the derivation raises nothing.\<close>

lemma get_view_copy_of_view_op_schema_no_exn:
  "\<exists>r. get_view_copy_of_view_op aten (SchemaObject schema) = Inr r"
proof (cases "arguments schema \<noteq> [] \<and> alias_info (arguments schema ! 0) \<noteq> None
              \<and> startswith (name schema) ''aten::''")
  case True
  then obtain b where "index1 (split_colons [] (name schema)) = Inr b"
    using index1_split_colons by blast
  with True show ?thesis
    by (simp add: get_view_copy_of_view_op_def is_view_op_def getattr_arguments_def
        getattr_name_def getattr_overload_name_def Let_def split: option.split)
next
  case False
  then show ?thesis
    by (auto simp: get_view_copy_of_view_op_def is_view_op_def getattr_arguments_def
        getattr_name_def)
qed

text \<open>
  Handed the schema of an operator that is not a view, or whose name is outside \<open>aten::\<close>,
  the derivation returns \<open>None\<close>.
\<close>

lemma get_view_copy_of_view_op_schema_not_a_view:
  assumes "arguments schema = []
           \<or> alias_info (arguments schema ! 0) = None
           \<or> \<not> startswith (name schema) ''aten::''"
  shows "get_view_copy_of_view_op aten (SchemaObject schema) = Inr None"
  using assms
  by (auto simp: get_view_copy_of_view_op_def is_view_op_def getattr_arguments_def
      getattr_name_def)

text \<open>Handed an operator, the derivation raises at its first attribute read.\<close>

lemma get_view_copy_of_view_op_operator:
  "get_view_copy_of_view_op aten (OperatorObject op) = Inl (AttributeError ''arguments'')"
  by (simp add: get_view_copy_of_view_op_def is_view_op_def getattr_arguments_def)

lemma call_operator_in_derivation_branch:
  "table op = None \<Longrightarrow> op \<notin> black_list \<Longrightarrow>
   call_operator_in table black_list aten super_call_operator op args kwargs m s =
     Inl (AttributeError ''arguments'')"
  by (simp add: call_operator_in_def get_view_copy_of_view_op_operator)

section \<open>Claims about the pass\<close>

text \<open>
  Handed a schema whose first argument has an alias classification, whose name starts with
  \<open>aten::\<close>, and for which the registry holds an overload family named base name plus
  \<open>_copy\<close> with the schema's overload qualifier (\<open>default\<close> for an empty overload name,
  else the overload name itself), the derivation returns exactly that view-copy operator.
  The base name is the second piece of the schema name split at \<open>::\<close>.
\<close>

lemma get_view_copy_of_view_op_schema_derived:
  assumes "arguments schema \<noteq> []"
    and "alias_info (arguments schema ! 0) \<noteq> None"
    and "startswith (name schema) ''aten::''"
    and "index1 (split_colons [] (name schema)) = Inr base"
    and "aten (base @ ''_copy'') = Some packet"
    and "packet (if overload_name schema = [] then ''default'' else overload_name schema) =
           Some view_copy_op"
  shows "get_view_copy_of_view_op aten (SchemaObject schema) = Inr (Some view_copy_op)"
  using assms
  by (cases "overload_name schema = []")
     (simp_all add: get_view_copy_of_view_op_def is_view_op_def getattr_arguments_def
        getattr_name_def getattr_overload_name_def)

text \<open>
  C1 does not hold of the code. Let \<open>op\<close> be neither a key of the static table nor in the
  exclusion set, and let its schema have an alias classification on the first argument, a
  name in \<open>aten::\<close>, and a view-copy operator in the registry under base name plus
  \<open>_copy\<close> and the overload qualifier. The derivation, handed the schema, returns that
  view-copy operator; but \<open>call_operator\<close> hands the derivation the operator,
  \<open>is_view_op\<close> reads \<open>arguments\<close> off it, and \<open>call_operator\<close> raises
  \<open>AttributeError\<close>: the view-copy operator is not handed to the base class.
\<close>

theorem derived_view_copy_raises:
  assumes "NON_FUNCTIONAL_OPS_TO_FUNCTIONAL_OPS op = None"
    and "op \<notin> BLACK_LISTED_OPS"
    and "arguments schema \<noteq> []"
    and "alias_info (arguments schema ! 0) \<noteq> None"
    and "startswith (name schema) ''aten::''"
    and "index1 (split_colons [] (name schema)) = Inr base"
    and "aten (base @ ''_copy'') = Some packet"
    and "packet (if overload_name schema = [] then ''default'' else overload_name schema) =
           Some view_copy_op"
  shows "get_view_copy_of_view_op aten (SchemaObject schema) = Inr (Some view_copy_op)
         \<and> call_operator aten super_call_operator op args kwargs m s =
             Inl (AttributeError ''arguments'')
         \<and> call_operator aten super_call_operator op args kwargs m s \<noteq>
             Inr (super_call_operator view_copy_op args kwargs m s)"
proof -
  have derived: "get_view_copy_of_view_op aten (SchemaObject schema) = Inr (Some view_copy_op)"
    using assms(3-8) by (rule get_view_copy_of_view_op_schema_derived)
  have raised: "call_operator aten super_call_operator op args kwargs m s =
                  Inl (AttributeError ''arguments'')"
    using assms(1,2) unfolding call_operator_def by (rule call_operator_in_derivation_branch)
  show ?thesis using derived raised by simp
qed

text \<open>
  The spec's example: \<open>transpose.int\<close>, with \<open>transpose_copy.int\<close> in the registry.
\<close>

theorem derived_view_copy_raises_witness:
  "get_view_copy_of_view_op example_registry (SchemaObject (view_schema ''aten::transpose'' ''int'')) =
     Inr (Some (OpOverload ''aten'' ''transpose_copy'' ''int''))
   \<and> call_operator example_registry counting_delegate
        (OpOverload ''aten'' ''transpose'' ''int'') 1 2 3 0 =
      Inl (AttributeError ''arguments'')
   \<and> call_operator example_registry counting_delegate
        (OpOverload ''aten'' ''transpose'' ''int'') 1 2 3 0 \<noteq>
      Inr ((OpOverload ''aten'' ''transpose_copy'' ''int'', 1, 2, 3), 1)"
  using derived_view_copy_raises [of "OpOverload ''aten'' ''transpose'' ''int''"
      "view_schema ''aten::transpose'' ''int''" "''transpose''"
      example_registry "[''int'' \<mapsto> OpOverload ''aten'' ''transpose_copy'' ''int'']"
      "OpOverload ''aten'' ''transpose_copy'' ''int''" counting_delegate 1 2 3 0]
  by (simp add: NON_FUNCTIONAL_OPS_TO_FUNCTIONAL_OPS_def BLACK_LISTED_OPS_def
      view_schema_def startswith_def index1_def example_registry_def counting_delegate_def)

text \<open>
  C4. For a key of the static table, \<open>call_operator\<close> hands the mapped operator to the
  base class with \<open>args\<close>, \<open>kwargs\<close> and \<open>meta\<close> as received, whatever the exclusion set
  and the registry are; with the table of the module, \<open>_unsafe_view.default\<close> becomes
  \<open>view_copy.default\<close>.
\<close>

theorem static_substitution_first:
  "(table op = Some functional_op \<longrightarrow>
      call_operator_in table black_list aten super_call_operator op args kwargs m s =
        Inr (super_call_operator functional_op args kwargs m s))
   \<and> call_operator aten super_call_operator
        (OpOverload ''aten'' ''_unsafe_view'' ''default'') args kwargs m s =
      Inr (super_call_operator (OpOverload ''aten'' ''view_copy'' ''default'') args kwargs m s)"
  by (simp add: call_operator_def call_operator_in_def NON_FUNCTIONAL_OPS_TO_FUNCTIONAL_OPS_def)

text \<open>
  The key is also put in the exclusion set, and the derivation on a view schema of the key
  would give \<open>_unsafe_view_copy.default\<close>: the static substitute is taken.
\<close>

theorem static_substitution_first_witness:
  "NON_FUNCTIONAL_OPS_TO_FUNCTIONAL_OPS (OpOverload ''aten'' ''_unsafe_view'' ''default'') =
     Some (OpOverload ''aten'' ''view_copy'' ''default'')
   \<and> OpOverload ''aten'' ''_unsafe_view'' ''default'' \<in> example_black_list
   \<and> get_view_copy_of_view_op example_registry
        (SchemaObject (view_schema ''aten::_unsafe_view'' [])) =
      Inr (Some (OpOverload ''aten'' ''_unsafe_view_copy'' ''default''))
   \<and> call_operator_in NON_FUNCTIONAL_OPS_TO_FUNCTIONAL_OPS example_black_list
        example_registry counting_delegate
        (OpOverload ''aten'' ''_unsafe_view'' ''default'') 1 2 3 0 =
      Inr ((OpOverload ''aten'' ''view_copy'' ''default'', 1, 2, 3), 1)"
  using static_substitution_first [of NON_FUNCTIONAL_OPS_TO_FUNCTIONAL_OPS
      "OpOverload ''aten'' ''_unsafe_view'' ''default''"
      "OpOverload ''aten'' ''view_copy'' ''default''" example_black_list
      example_registry counting_delegate 1 2 3 0]
  by (simp add: NON_FUNCTIONAL_OPS_TO_FUNCTIONAL_OPS_def example_black_list_def
      get_view_copy_of_view_op_def is_view_op_def getattr_arguments_def getattr_name_def
      getattr_overload_name_def view_schema_def startswith_def index1_def
      example_registry_def counting_delegate_def)

text \<open>
  C5. For every member of the exclusion set (the packets \<open>sym_size\<close>, \<open>sym_stride\<close>,
  \<open>sym_numel\<close>), \<open>call_operator\<close> hands the operator itself to the base class, whatever
  the registry is: the derivation is not reached. Membership is the test
  \<open>op in _BLACK_LISTED_OPS\<close> of the source; the members are packets, and no overload is a
  member.
\<close>

theorem black_listed_unchanged:
  assumes "op \<in> BLACK_LISTED_OPS"
  shows "call_operator aten super_call_operator op args kwargs m s =
           Inr (super_call_operator op args kwargs m s)"
  using assms
  by (auto simp: call_operator_def call_operator_in_def BLACK_LISTED_OPS_def
      NON_FUNCTIONAL_OPS_TO_FUNCTIONAL_OPS_def)

text \<open>
  The registry holds \<open>sym_size_copy.default\<close>, which the derivation on a view schema named
  \<open>aten::sym_size\<close> would give; the packet is handed on unchanged.
\<close>

theorem black_listed_unchanged_witness:
  "OpOverloadPacket ''aten'' ''sym_size'' \<in> BLACK_LISTED_OPS
   \<and> get_view_copy_of_view_op example_registry
        (SchemaObject (view_schema ''aten::sym_size'' [])) =
      Inr (Some (OpOverload ''aten'' ''sym_size_copy'' ''default''))
   \<and> call_operator example_registry counting_delegate
        (OpOverloadPacket ''aten'' ''sym_size'') 1 2 3 0 =
      Inr ((OpOverloadPacket ''aten'' ''sym_size'', 1, 2, 3), 1)"
  using black_listed_unchanged [of "OpOverloadPacket ''aten'' ''sym_size''"
      example_registry counting_delegate 1 2 3 0]
  by (simp add: BLACK_LISTED_OPS_def get_view_copy_of_view_op_def is_view_op_def
      getattr_arguments_def getattr_name_def getattr_overload_name_def view_schema_def
      startswith_def index1_def example_registry_def counting_delegate_def)

text \<open>
  C6 does not hold of the code. For every operator that is neither a key of the static table
  nor in the exclusion set, \<open>call_operator\<close> raises \<open>AttributeError\<close>, whatever the schema
  of the operator is: \<open>get_view_copy_of_view_op\<close> is handed the operator, and
  \<open>is_view_op\<close> reads \<open>arguments\<close> off it. The operator is not handed on unchanged.
\<close>

theorem not_a_view_raises:
  assumes "NON_FUNCTIONAL_OPS_TO_FUNCTIONAL_OPS op = None"
    and "op \<notin> BLACK_LISTED_OPS"
  shows "call_operator aten super_call_operator op args kwargs m s =
           Inl (AttributeError ''arguments'')"
  using assms unfolding call_operator_def by (rule call_operator_in_derivation_branch)

text \<open>
  \<open>add.Tensor\<close> has no alias on its first argument: the derivation on its schema returns
  \<open>None\<close>, and \<open>call_operator\<close> on the operator raises.
\<close>

theorem not_a_view_raises_witness:
  "get_view_copy_of_view_op example_registry (SchemaObject (plain_schema ''aten::add'' ''Tensor'')) =
     Inr None
   \<and> call_operator example_registry counting_delegate
        (OpOverload ''aten'' ''add'' ''Tensor'') 1 2 3 0 =
      Inl (AttributeError ''arguments'')"
  using not_a_view_raises [of "OpOverload ''aten'' ''add'' ''Tensor''" example_registry
      counting_delegate 1 2 3 0]
    get_view_copy_of_view_op_schema_not_a_view [of "plain_schema ''aten::add'' ''Tensor''"
      example_registry]
  by (simp add: NON_FUNCTIONAL_OPS_TO_FUNCTIONAL_OPS_def BLACK_LISTED_OPS_def plain_schema_def)

text \<open>
  C7 does not hold of the code. On the two branches that follow the schema derivation
  (substitution by the derived operator, no substitution), that is for every operator that
  is neither a key of the static table nor in the exclusion set, the result of
  \<open>call_operator\<close> is not the result of a call of the base class's \<open>call_operator\<close>,
  with whatever operator: the exception leaves the method before the base class is called.
\<close>

theorem derivation_branches_skip_delegate:
  assumes "NON_FUNCTIONAL_OPS_TO_FUNCTIONAL_OPS op = None"
    and "op \<notin> BLACK_LISTED_OPS"
  shows "call_operator aten super_call_operator op args kwargs m s \<noteq>
           Inr (super_call_operator effective_op args kwargs m s)"
  using assms call_operator_in_derivation_branch [of NON_FUNCTIONAL_OPS_TO_FUNCTIONAL_OPS op
      BLACK_LISTED_OPS aten super_call_operator args kwargs m s]
  by (simp add: call_operator_def)

text \<open>
  The counting base class is not called for \<open>transpose.int\<close>, although the derivation on
  the schema of the operator gives \<open>transpose_copy.int\<close>.
\<close>

theorem derivation_branches_skip_delegate_witness:
  "get_view_copy_of_view_op example_registry (SchemaObject (view_schema ''aten::transpose'' ''int'')) =
     Inr (Some (OpOverload ''aten'' ''transpose_copy'' ''int''))
   \<and> call_operator example_registry counting_delegate
        (OpOverload ''aten'' ''transpose'' ''int'') 1 2 3 0 \<noteq>
      Inr (counting_delegate (OpOverload ''aten'' ''transpose_copy'' ''int'') 1 2 3 0)
   \<and> call_operator example_registry counting_delegate
        (OpOverload ''aten'' ''transpose'' ''int'') 1 2 3 0 \<noteq>
      Inr (counting_delegate (OpOverload ''aten'' ''transpose'' ''int'') 1 2 3 0)"
  using derivation_branches_skip_delegate [of "OpOverload ''aten'' ''transpose'' ''int''"
      example_registry counting_delegate 1 2 3 0 "OpOverload ''aten'' ''transpose_copy'' ''int''"]
    derivation_branches_skip_delegate [of "OpOverload ''aten'' ''transpose'' ''int''"
      example_registry counting_delegate 1 2 3 0 "OpOverload ''aten'' ''transpose'' ''int''"]
  by (simp add: NON_FUNCTIONAL_OPS_TO_FUNCTIONAL_OPS_def BLACK_LISTED_OPS_def
      get_view_copy_of_view_op_def is_view_op_def getattr_arguments_def getattr_name_def
      getattr_overload_name_def view_schema_def startswith_def index1_def example_registry_def)

section \<open>Facts about the cross-check\<close>

lemma torch_dispatch_skipped:
  "\<not> shadow_runs self env func \<Longrightarrow>
   torch_dispatch self env func types args kwargs_opt =
     (real_call env func args (or_empty kwargs_opt),
      [RealCall func args (or_empty kwargs_opt)])"
  by (simp add: torch_dispatch_def Let_def split: sum.split)


lemma torch_dispatch_raised:
  "shadow_runs self env func \<Longrightarrow>
   shadow env func args (or_empty kwargs_opt) = (Inl e, ev) \<Longrightarrow> \<not> is_unsupported e \<Longrightarrow>
   torch_dispatch self env func types args kwargs_opt = (Inl e, ev)"
  by (simp add: torch_dispatch_def try_shadow_def Let_def)



lemma torch_dispatch_compared:
  "shadow_runs self env func \<Longrightarrow>
   shadow env func args (or_empty kwargs_opt) = (Inr fake_r, ev) \<Longrightarrow> fake_r \<noteq> Leaf PyNone \<Longrightarrow>
   real_call env func args (or_empty kwargs_opt) = Inr r \<Longrightarrow>
   torch_dispatch self env func types args kwargs_opt =
     (case compare_outputs env func (zip (tree_flatten r) (tree_flatten fake_r)) of
        (Some e, ev') \<Rightarrow> (Inl e, ev @ RealCall func args (or_empty kwargs_opt) # ev')
      | (None, ev') \<Rightarrow> (Inr r, ev @ RealCall func args (or_empty kwargs_opt) # ev'))"
  by (simp add: torch_dispatch_def try_shadow_def Let_def)

lemma compare_outputs_first_failure:
  "i < length pairs \<Longrightarrow> \<forall>j<i. pair_agrees env (pairs ! j) \<Longrightarrow>
   isinstance_Tensor (fst (pairs ! i)) \<Longrightarrow> isinstance_Tensor (snd (pairs ! i)) \<Longrightarrow>
   compare_tensor_meta env (fst (pairs ! i)) (snd (pairs ! i)) = Some e \<Longrightarrow>
   compare_outputs env func pairs = (Some (RuntimeError func e), compared (take (Suc i) pairs))"
proof (induction pairs arbitrary: i)
  case Nil
  then show ?case by simp
next
  case (Cons p pairs)
  obtain a b where p: "p = (a, b)" by (cases p)
  show ?case
  proof (cases i)
    case 0
    with Cons.prems p show ?thesis by (simp add: compared_def)
  next
    case (Suc k)
    have agree: "pair_agrees env (a, b)" using Cons.prems(2) Suc p by auto
    have k: "k < length pairs" using Cons.prems(1) Suc by simp
    have before: "\<forall>j<k. pair_agrees env (pairs ! j)"
    proof (intro allI impI)
      fix j assume "j < k"
      then have "Suc j < i" using Suc by simp
      then have "pair_agrees env ((p # pairs) ! Suc j)" using Cons.prems(2) by blast
      then show "pair_agrees env (pairs ! j)" by simp
    qed
    have ih: "compare_outputs env func pairs =
                (Some (RuntimeError func e), compared (take (Suc k) pairs))"
      using Cons.IH [OF k before] Cons.prems(3,4,5) Suc by simp
    show ?thesis
      using agree ih p Suc by (auto simp: pair_agrees_def compared_def)
  qed
qed

lemma compare_outputs_all_agree:
  "\<forall>p\<in>set pairs. pair_agrees env p \<Longrightarrow>
   compare_outputs env func pairs = (None, compared pairs)"
proof (induction pairs)
  case Nil
  then show ?case by (simp add: compared_def)
next
  case (Cons p pairs)
  obtain a b where p: "p = (a, b)" by (cases p)
  from Cons have ih: "compare_outputs env func pairs = (None, compared pairs)" by simp
  from Cons.prems p have "pair_agrees env (a, b)" by simp
  then show ?case using ih p by (auto simp: pair_agrees_def compared_def)
qed

lemma compare_outputs_disagree:
  "p \<in> set pairs \<Longrightarrow> \<not> pair_agrees env p \<Longrightarrow>
   \<exists>e. fst (compare_outputs env func pairs) = Some e"
proof (induction pairs)
  case Nil
  then show ?case by simp
next
  case (Cons q pairs)
  obtain a b where q: "q = (a, b)" by (cases q)
  show ?case
  proof (cases "pair_agrees env q")
    case True
    then have "p \<in> set pairs" using Cons.prems by auto
    then obtain e where "fst (compare_outputs env func pairs) = Some e"
      using Cons.IH Cons.prems(2) by blast
    then show ?thesis using True q
      by (auto simp: pair_agrees_def split: prod.splits)
  next
    case False
    then show ?thesis using q
      by (auto simp: pair_agrees_def split: prod.splits option.splits)
  qed
qed


lemma zip_take_min:
  "zip xs ys = zip (take (min (length xs) (length ys)) xs) (take (min (length xs) (length ys)) ys)"
  by (metis length_zip take_all_iff take_zip order_refl)

lemma run_leaves_append:
  "run_leaves fn (xs @ ys) =
     (case run_leaves fn xs of
        (Some e, ev) \<Rightarrow> (Some e, ev)
      | (None, ev) \<Rightarrow> (case run_leaves fn ys of (r, ev') \<Rightarrow> (r, ev @ ev')))"
  by (induction xs) (auto split: prod.splits sum.splits option.splits)

lemma tree_map_run_leaves:
  "run_leaves fn (tree_flatten t) =
     (case tree_map fn t of (Inl e, ev) \<Rightarrow> (Some e, ev) | (Inr t', ev) \<Rightarrow> (None, ev))"
  "run_leaves fn (concat (map tree_flatten ts)) =
     (case tree_map_list fn ts of (Inl e, ev) \<Rightarrow> (Some e, ev) | (Inr ts', ev) \<Rightarrow> (None, ev))"
  by (induction fn t and fn ts rule: tree_map_tree_map_list.induct)
     (auto simp: run_leaves_append split: prod.splits sum.splits option.splits)


lemma two_walks:
  "run_leaves fn (concat (map tree_flatten xs) @ concat (map tree_flatten ys)) =
     (case tree_map_list fn xs of
        (Inl e, ev) \<Rightarrow> (Some e, ev)
      | (Inr xs', ev) \<Rightarrow>
          (case tree_map_list fn ys of
             (Inl e, ev') \<Rightarrow> (Some e, ev @ ev')
           | (Inr ys', ev') \<Rightarrow> (None, ev @ ev')))"
  by (simp add: run_leaves_append tree_map_run_leaves(2) split: prod.splits sum.splits)

lemma shadow_run_leaves:
  assumes "run_leaves (on_tensor (lift env))
             (concat (map tree_flatten args) @ concat (map tree_flatten (map snd kwargs))) =
           (Some e, ev)"
  shows "shadow env func args kwargs = (Inl e, ev)"
  using assms unfolding two_walks shadow_def
  by (auto split: prod.splits sum.splits)

lemma run_leaves_fake:
  assumes "\<forall>t\<in>set pre. \<not> isinstance_FakeTensor t
             \<and> (isinstance_Tensor t \<longrightarrow> (\<exists>y. from_tensor env t = Inr y))"
  shows "run_leaves (on_tensor (lift env)) (pre @ FakeTensor x # post) =
           (Some (AssertionError ''FakeTensor -> Real Cross Ref NYI''),
            map FromTensor (filter isinstance_Tensor pre))"
  using assms
proof (induction pre)
  case Nil
  have "on_tensor (lift env) (FakeTensor x) =
          (Inl (AssertionError ''FakeTensor -> Real Cross Ref NYI''), [])"
    by (simp add: on_tensor_def isinstance_Tensor_def isinstance_FakeTensor_def)
  then show ?case by simp
next
  case (Cons t pre)
  then have ih: "run_leaves (on_tensor (lift env)) (pre @ FakeTensor x # post) =
           (Some (AssertionError ''FakeTensor -> Real Cross Ref NYI''),
            map FromTensor (filter isinstance_Tensor pre))" by simp
  show ?case
  proof (cases "isinstance_Tensor t")
    case True
    then obtain y where "from_tensor env t = Inr y" using Cons.prems by auto
    moreover have "\<not> isinstance_FakeTensor t" using Cons.prems by simp
    ultimately have "on_tensor (lift env) t = (Inr y, [FromTensor t])"
      using True by (simp add: on_tensor_def lift_def)
    then show ?thesis using True ih by simp
  next
    case False
    then have "on_tensor (lift env) t = (Inr t, [])" by (simp add: on_tensor_def)
    then show ?thesis using False ih by simp
  qed
qed




lemma compare_tensor_meta_spec_detects:
  "\<forall>a b x y. tensor_meta a = Some x \<and> tensor_meta b = Some y
     \<and> (shape x \<noteq> shape y \<or> dtype x \<noteq> dtype y \<or> stride x \<noteq> stride y)
     \<longrightarrow> compare_tensor_meta_spec a b \<noteq> None"
  by (auto simp: compare_tensor_meta_spec_def)

lemma shadow_runs_example:
  "shadow_runs (CrossRefFakeMode_init None) example_substrate (OpOverload ''aten'' ''t'' ''default'')"
  "shadow_runs (CrossRefFakeMode_init None) example_substrate (OpOverload ''aten'' ''unbind'' ''int'')"
  "shadow_runs (CrossRefFakeMode_init None) example_substrate (OpOverload ''aten'' ''add'' ''Tensor'')"
  by (simp_all add: shadow_runs_def CrossRefFakeMode_init_def example_substrate_def)

lemma shadow_example:
  "shadow example_substrate f [Leaf (Tensor t23)] [] =
     (fake_call example_substrate f [Leaf (FakeTensor t23)] [],
      [FromTensor (Tensor t23), FakeCall f [Leaf (FakeTensor t23)] []])"
  by (simp add: shadow_def on_tensor_def lift_def isinstance_Tensor_def isinstance_FakeTensor_def
      example_substrate_def t23_def)

section \<open>Claims about the cross-check\<close>

text \<open>
  C2. Let the fake execution have returned a result other than \<open>None\<close> and the real
  execution have returned, and let \<open>compare_tensor_meta\<close> raise whenever two tensors
  differ in shape, dtype or stride. If the pair of leaves at a position \<open>i\<close> of the zipped
  flattened results is a pair of tensors that differ in shape, dtype or stride, then
  \<open>__torch_dispatch__\<close> raises and returns no value; and if every pair before \<open>i\<close> passes,
  so that \<open>i\<close> is the first failing pair, the exception is the \<open>RuntimeError\<close> that names
  \<open>func\<close> and wraps the exception of the comparison, and the comparisons made are those of
  the pairs up to \<open>i\<close> and no later one.
\<close>

theorem mismatch_raises:
  assumes "shadow_runs self env func"
    and "shadow env func args (or_empty kwargs_opt) = (Inr fake_r, ev)"
    and "fake_r \<noteq> Leaf PyNone"
    and "real_call env func args (or_empty kwargs_opt) = Inr r"
    and "\<forall>a b x y. tensor_meta a = Some x \<and> tensor_meta b = Some y
           \<and> (shape x \<noteq> shape y \<or> dtype x \<noteq> dtype y \<or> stride x \<noteq> stride y)
           \<longrightarrow> compare_tensor_meta env a b \<noteq> None"
    and "pairs = zip (tree_flatten r) (tree_flatten fake_r)"
    and "i < length pairs"
    and "tensor_meta (fst (pairs ! i)) = Some x"
    and "tensor_meta (snd (pairs ! i)) = Some y"
    and "shape x \<noteq> shape y \<or> dtype x \<noteq> dtype y \<or> stride x \<noteq> stride y"
  shows "(\<exists>e. fst (torch_dispatch self env func types args kwargs_opt) = Inl e)
         \<and> ((\<forall>j<i. pair_agrees env (pairs ! j)) \<longrightarrow>
              (\<exists>e. compare_tensor_meta env (fst (pairs ! i)) (snd (pairs ! i)) = Some e
                 \<and> torch_dispatch self env func types args kwargs_opt =
                     (Inl (RuntimeError func e),
                      ev @ RealCall func args (or_empty kwargs_opt)
                         # compared (take (Suc i) pairs))))"
proof -
  let ?td = "torch_dispatch self env func types args kwargs_opt"
  have td: "?td =
     (case compare_outputs env func pairs of
        (Some e, ev') \<Rightarrow> (Inl e, ev @ RealCall func args (or_empty kwargs_opt) # ev')
      | (None, ev') \<Rightarrow> (Inr r, ev @ RealCall func args (or_empty kwargs_opt) # ev'))"
    using torch_dispatch_compared [OF assms(1,2,3,4)] assms(6) by simp
  have "compare_tensor_meta env (fst (pairs ! i)) (snd (pairs ! i)) \<noteq> None"
    using assms(5,8,9,10) by blast
  then obtain e where e: "compare_tensor_meta env (fst (pairs ! i)) (snd (pairs ! i)) = Some e"
    by auto
  have ta: "isinstance_Tensor (fst (pairs ! i))"
    using assms(8) by (auto simp: tensor_meta_def isinstance_Tensor_def split: leaf.splits)
  have tb: "isinstance_Tensor (snd (pairs ! i))"
    using assms(9) by (auto simp: tensor_meta_def isinstance_Tensor_def split: leaf.splits)
  have "\<not> pair_agrees env (pairs ! i)" using ta e by (simp add: pair_agrees_def)
  moreover have "pairs ! i \<in> set pairs" using assms(7) by simp
  ultimately obtain e' where "fst (compare_outputs env func pairs) = Some e'"
    using compare_outputs_disagree by blast
  then have no_value: "\<exists>e. fst ?td = Inl e"
    using td by (auto split: prod.splits)
  have named: "?td = (Inl (RuntimeError func e),
                      ev @ RealCall func args (or_empty kwargs_opt)
                         # compared (take (Suc i) pairs))"
    if "\<forall>j<i. pair_agrees env (pairs ! j)"
  proof -
    have "compare_outputs env func pairs =
            (Some (RuntimeError func e), compared (take (Suc i) pairs))"
      using assms(7) that ta tb e by (rule compare_outputs_first_failure)
    then show ?thesis using td by simp
  qed
  show ?thesis using no_value named e by blast
qed

text \<open>A fake execution that reports the shape \<open>[3, 2]\<close> for a real \<open>[2, 3]\<close>.\<close>

theorem mismatch_raises_witness:
  "torch_dispatch (CrossRefFakeMode_init None) example_substrate
     (OpOverload ''aten'' ''t'' ''default'') () [Leaf (Tensor t23)] None =
   (Inl (RuntimeError (OpOverload ''aten'' ''t'' ''default'')
           (AssertionError ''Shapes are not equal!'')),
    [FromTensor (Tensor t23),
     FakeCall (OpOverload ''aten'' ''t'' ''default'') [Leaf (FakeTensor t23)] [],
     RealCall (OpOverload ''aten'' ''t'' ''default'') [Leaf (Tensor t23)] [],
     CompareTensorMeta (Tensor t23) (FakeTensor t32)])"
proof -
  have sh: "shadow example_substrate (OpOverload ''aten'' ''t'' ''default'') [Leaf (Tensor t23)]
              (or_empty None) =
            (Inr (Leaf (FakeTensor t32)),
             [FromTensor (Tensor t23),
              FakeCall (OpOverload ''aten'' ''t'' ''default'') [Leaf (FakeTensor t23)] []])"
    by (simp add: shadow_example or_empty_def) (simp add: example_substrate_def)
  have rc: "real_call example_substrate (OpOverload ''aten'' ''t'' ''default'')
              [Leaf (Tensor t23)] (or_empty None) = Inr (Leaf (Tensor t23))"
    by (simp add: example_substrate_def)
  have cmp: "compare_tensor_meta example_substrate = compare_tensor_meta_spec"
    by (simp add: example_substrate_def)
  have "\<exists>e. compare_tensor_meta example_substrate
               (fst ([(Tensor t23, FakeTensor t32)] ! 0)) (snd ([(Tensor t23, FakeTensor t32)] ! 0)) =
             Some e
          \<and> torch_dispatch (CrossRefFakeMode_init None) example_substrate
               (OpOverload ''aten'' ''t'' ''default'') () [Leaf (Tensor t23)] None =
             (Inl (RuntimeError (OpOverload ''aten'' ''t'' ''default'') e),
              [FromTensor (Tensor t23),
               FakeCall (OpOverload ''aten'' ''t'' ''default'') [Leaf (FakeTensor t23)] []]
              @ RealCall (OpOverload ''aten'' ''t'' ''default'') [Leaf (Tensor t23)] (or_empty None)
              # compared (take (Suc 0) [(Tensor t23, FakeTensor t32)]))"
    using mismatch_raises [OF shadow_runs_example(1) sh _ rc _ _ _ _ _ _,
        of "[(Tensor t23, FakeTensor t32)]" 0 t23 t32 "()"]
      compare_tensor_meta_spec_detects
    by (simp add: cmp tensor_meta_def t23_def t32_def)
  then show ?thesis
    by (auto simp: cmp compare_tensor_meta_spec_def tensor_meta_def t23_def t32_def compared_def
        isinstance_Tensor_def or_empty_def)
qed

text \<open>
  C3. Let the call be made with keyword arguments \<open>kwargs\<close>, or with \<open>kwargs=None\<close>,
  which stands for no keyword arguments. If \<open>func\<close> is \<open>lift_fresh.default\<close>,
  \<open>lift_fresh_copy.default\<close> or \<open>set_.source_Storage_storage_offset\<close>, or
  \<open>ignore_op_fn(func)\<close> holds, or the tags of \<open>func\<close> include
  \<open>dynamic_output_shape\<close>, \<open>inplace_view\<close> or \<open>data_dependent_output\<close>, then the
  only call made is the real execution of \<open>func\<close> on the positional and keyword arguments
  received (no tensor is lifted, \<open>func\<close> is not run in fake mode), and its outcome is the
  outcome of \<open>__torch_dispatch__\<close>.
\<close>

theorem skipped_shadow:
  assumes "func \<in> {OpOverload ''aten'' ''lift_fresh'' ''default'',
                     OpOverload ''aten'' ''lift_fresh_copy'' ''default'',
                     OpOverload ''aten'' ''set_'' ''source_Storage_storage_offset''}
           \<or> ignore_op_fn self func
           \<or> dynamic_output_shape \<in> set (tags env func)
           \<or> inplace_view \<in> set (tags env func)
           \<or> data_dependent_output \<in> set (tags env func)"
    and "kwargs_opt = Some kwargs \<or> (kwargs_opt = None \<and> kwargs = [])"
  shows "torch_dispatch self env func types args kwargs_opt =
           (real_call env func args kwargs, [RealCall func args kwargs])"
proof -
  from assms(1) have "\<not> shadow_runs self env func" by (auto simp: shadow_runs_def)
  then have "torch_dispatch self env func types args kwargs_opt =
               (real_call env func args (or_empty kwargs_opt),
                [RealCall func args (or_empty kwargs_opt)])"
    by (rule torch_dispatch_skipped)
  moreover have "or_empty kwargs_opt = kwargs" using assms(2) by (auto simp: or_empty_def)
  ultimately show ?thesis by simp
qed

text \<open>
  An operator with the tag \<open>dynamic_output_shape\<close>, called with a keyword argument: the
  real execution receives it, and nothing else is called. Called with \<open>kwargs=None\<close>, the
  real execution receives no keyword argument.
\<close>

theorem skipped_shadow_witness:
  "torch_dispatch (CrossRefFakeMode_init None) echo_substrate
     (OpOverload ''aten'' ''nonzero'' ''default'') () [Leaf (Tensor t23)]
     (Some [(''as_tuple'', Leaf (Opaque ''True''))]) =
   (Inr (Node TupleCtx [Leaf (Tensor t23), Leaf (Opaque ''True'')]),
    [RealCall (OpOverload ''aten'' ''nonzero'' ''default'') [Leaf (Tensor t23)]
       [(''as_tuple'', Leaf (Opaque ''True''))]])
   \<and> torch_dispatch (CrossRefFakeMode_init None) echo_substrate
       (OpOverload ''aten'' ''nonzero'' ''default'') () [Leaf (Tensor t23)] None =
     (Inr (Node TupleCtx [Leaf (Tensor t23)]),
      [RealCall (OpOverload ''aten'' ''nonzero'' ''default'') [Leaf (Tensor t23)] []])"
  using skipped_shadow [of "OpOverload ''aten'' ''nonzero'' ''default''"
      "CrossRefFakeMode_init None" echo_substrate
      "Some [(''as_tuple'', Leaf (Opaque ''True''))]" "[(''as_tuple'', Leaf (Opaque ''True''))]"
      "()" "[Leaf (Tensor t23)]"]
    skipped_shadow [of "OpOverload ''aten'' ''nonzero'' ''default''"
      "CrossRefFakeMode_init None" echo_substrate None "[]" "()" "[Leaf (Tensor t23)]"]
  by (simp add: echo_substrate_def example_substrate_def)




text \<open>
  C9 (as amended). For a call whose fake execution is attempted, if a leaf of the arguments
  is a fake tensor, and the real tensors before the first such leaf are lifted without an
  exception, then \<open>__torch_dispatch__\<close> raises the \<open>AssertionError\<close> of \<open>on_tensor\<close>
  after lifting those tensors, before any execution of \<open>func\<close>.
\<close>

theorem fake_argument_asserts:
  assumes "shadow_runs self env func"
    and "concat (map tree_flatten args)
           @ concat (map tree_flatten (map snd (or_empty kwargs_opt))) =
         pre @ FakeTensor x # post"
    and "\<forall>t\<in>set pre. \<not> isinstance_FakeTensor t
           \<and> (isinstance_Tensor t \<longrightarrow> (\<exists>y. from_tensor env t = Inr y))"
  shows "torch_dispatch self env func types args kwargs_opt =
           (Inl (AssertionError ''FakeTensor -> Real Cross Ref NYI''),
            map FromTensor (filter isinstance_Tensor pre))"
proof -
  have "run_leaves (on_tensor (lift env))
          (concat (map tree_flatten args)
             @ concat (map tree_flatten (map snd (or_empty kwargs_opt)))) =
        (Some (AssertionError ''FakeTensor -> Real Cross Ref NYI''),
         map FromTensor (filter isinstance_Tensor pre))"
    unfolding assms(2) using assms(3) by (rule run_leaves_fake)
  then have "shadow env func args (or_empty kwargs_opt) =
        (Inl (AssertionError ''FakeTensor -> Real Cross Ref NYI''),
         map FromTensor (filter isinstance_Tensor pre))"
    by (rule shadow_run_leaves)
  moreover have "\<not> is_unsupported (AssertionError ''FakeTensor -> Real Cross Ref NYI'')"
    by (simp add: is_unsupported_def)
  ultimately show ?thesis
    using assms(1) by (rule torch_dispatch_raised [rotated])
qed

theorem fake_argument_asserts_witness:
  "torch_dispatch (CrossRefFakeMode_init None) example_substrate
     (OpOverload ''aten'' ''add'' ''Tensor'') ()
     [Leaf (Tensor t23), Leaf (FakeTensor t23)] (Some [(''alpha'', Leaf (Tensor t32))]) =
   (Inl (AssertionError ''FakeTensor -> Real Cross Ref NYI''), [FromTensor (Tensor t23)])"
  using fake_argument_asserts [of "CrossRefFakeMode_init None" example_substrate
      "OpOverload ''aten'' ''add'' ''Tensor''" "[Leaf (Tensor t23), Leaf (FakeTensor t23)]"
      "Some [(''alpha'', Leaf (Tensor t32))]" "[Tensor t23]" t23 "[Tensor t32]" "()"]
    shadow_runs_example(3)
  by (simp add: or_empty_def isinstance_Tensor_def isinstance_FakeTensor_def
      example_substrate_def t23_def)

text \<open>
  C9 as stated fails. With an \<open>ignore_op_fn\<close> that holds for every operator the fake
  execution is skipped, \<open>on_tensor\<close> is never called, and a call with a fake tensor among
  its arguments returns the real result. With the fake execution attempted, a quantized tensor
  before the fake one makes the lifting raise \<open>UnsupportedFakeTensorException\<close>, which is
  dropped before the fake tensor is reached, and the call returns the real result as well.
\<close>

theorem fake_argument_asserts_counterexample:
  "torch_dispatch (CrossRefFakeMode_init (Some ignore_all)) example_substrate
     (OpOverload ''aten'' ''add'' ''Tensor'') ()
     [Leaf (Tensor t23), Leaf (FakeTensor t23)] None =
   (Inr (Leaf (Tensor t23)),
    [RealCall (OpOverload ''aten'' ''add'' ''Tensor'')
       [Leaf (Tensor t23), Leaf (FakeTensor t23)] []])
   \<and> torch_dispatch (CrossRefFakeMode_init None) example_substrate
       (OpOverload ''aten'' ''add'' ''Tensor'') ()
       [Leaf (Tensor tq), Leaf (FakeTensor t23)] None =
     (Inr (Leaf (Tensor t23)),
      [FromTensor (Tensor tq),
       RealCall (OpOverload ''aten'' ''add'' ''Tensor'')
         [Leaf (Tensor tq), Leaf (FakeTensor t23)] []])"
  by (simp add: torch_dispatch_def shadow_runs_def try_shadow_def shadow_def on_tensor_def
      lift_def is_unsupported_def isinstance_Tensor_def isinstance_FakeTensor_def or_empty_def
      CrossRefFakeMode_init_def ignore_all_def example_substrate_def tq_def)

text \<open>
  C10. Let the fake execution have returned a result other than \<open>None\<close> and the real
  execution have returned, and let \<open>n\<close> be the smaller of the numbers of leaves of the two
  results. The outcome and the comparisons made are those of the loop over the first \<open>n\<close>
  leaves of each result; when these \<open>n\<close> pairs pass, the real result is returned, whatever
  the numbers of leaves are.
\<close>

theorem excess_leaves_ignored:
  assumes "shadow_runs self env func"
    and "shadow env func args (or_empty kwargs_opt) = (Inr fake_r, ev)"
    and "fake_r \<noteq> Leaf PyNone"
    and "real_call env func args (or_empty kwargs_opt) = Inr r"
    and "n = min (length (tree_flatten r)) (length (tree_flatten fake_r))"
  shows "torch_dispatch self env func types args kwargs_opt =
           (case compare_outputs env func
                   (zip (take n (tree_flatten r)) (take n (tree_flatten fake_r))) of
              (Some e, ev') \<Rightarrow> (Inl e, ev @ RealCall func args (or_empty kwargs_opt) # ev')
            | (None, ev') \<Rightarrow> (Inr r, ev @ RealCall func args (or_empty kwargs_opt) # ev'))
         \<and> ((\<forall>p\<in>set (zip (take n (tree_flatten r)) (take n (tree_flatten fake_r))).
                pair_agrees env p) \<longrightarrow>
              torch_dispatch self env func types args kwargs_opt =
                (Inr r, ev @ RealCall func args (or_empty kwargs_opt)
                      # compared (zip (take n (tree_flatten r)) (take n (tree_flatten fake_r)))))"
proof -
  let ?pairs = "zip (take n (tree_flatten r)) (take n (tree_flatten fake_r))"
  have z: "zip (tree_flatten r) (tree_flatten fake_r) = ?pairs"
    using zip_take_min [of "tree_flatten r" "tree_flatten fake_r"] assms(5) by simp
  have first: "torch_dispatch self env func types args kwargs_opt =
           (case compare_outputs env func ?pairs of
              (Some e, ev') \<Rightarrow> (Inl e, ev @ RealCall func args (or_empty kwargs_opt) # ev')
            | (None, ev') \<Rightarrow> (Inr r, ev @ RealCall func args (or_empty kwargs_opt) # ev'))"
    using torch_dispatch_compared [OF assms(1,2,3,4)] z by simp
  have second: "torch_dispatch self env func types args kwargs_opt =
                (Inr r, ev @ RealCall func args (or_empty kwargs_opt) # compared ?pairs)"
    if "\<forall>p\<in>set ?pairs. pair_agrees env p"
    using first compare_outputs_all_agree [OF that, of func] by simp
  show ?thesis using first second by blast
qed

text \<open>The fake result has two leaves, the real result one.\<close>

theorem excess_leaves_ignored_witness:
  "tree_flatten (Leaf (Tensor t23)) = [Tensor t23]
   \<and> tree_flatten (Node TupleCtx [Leaf (FakeTensor t23), Leaf (FakeTensor t32)]) =
       [FakeTensor t23, FakeTensor t32]
   \<and> torch_dispatch (CrossRefFakeMode_init None) example_substrate
       (OpOverload ''aten'' ''unbind'' ''int'') () [Leaf (Tensor t23)] None =
     (Inr (Leaf (Tensor t23)),
      [FromTensor (Tensor t23),
       FakeCall (OpOverload ''aten'' ''unbind'' ''int'') [Leaf (FakeTensor t23)] [],
       RealCall (OpOverload ''aten'' ''unbind'' ''int'') [Leaf (Tensor t23)] [],
       CompareTensorMeta (Tensor t23) (FakeTensor t23)])"
proof -
  have sh: "shadow example_substrate (OpOverload ''aten'' ''unbind'' ''int'') [Leaf (Tensor t23)]
              (or_empty None) =
            (Inr (Node TupleCtx [Leaf (FakeTensor t23), Leaf (FakeTensor t32)]),
             [FromTensor (Tensor t23),
              FakeCall (OpOverload ''aten'' ''unbind'' ''int'') [Leaf (FakeTensor t23)] []])"
    by (simp add: shadow_example or_empty_def) (simp add: example_substrate_def)
  have rc: "real_call example_substrate (OpOverload ''aten'' ''unbind'' ''int'')
              [Leaf (Tensor t23)] (or_empty None) = Inr (Leaf (Tensor t23))"
    by (simp add: example_substrate_def)
  have cmp: "compare_tensor_meta example_substrate = compare_tensor_meta_spec"
    by (simp add: example_substrate_def)
  show ?thesis
    using excess_leaves_ignored [OF shadow_runs_example(2) sh _ rc, of 1 "()"]
    by (simp add: pair_agrees_def compared_def isinstance_Tensor_def cmp
        compare_tensor_meta_spec_def tensor_meta_def or_empty_def)
qed

end
